theory Spec2Isabelle
  imports Main "HOL-Library.Sublist" "HOL-Library.AList"
begin

section \<open>The MCP server of the infra troubleshooter (mcp_server.py)\<close>

text \<open>
  The server keeps two module-level stores, the dict \<^verbatim>\<open>status\<close> and the list
  \<^verbatim>\<open>remediation_log\<close>, and talks to the cluster only through
  \<^verbatim>\<open>subprocess.run\<close>, \<^verbatim>\<open>subprocess.Popen\<close> and sleeps. The model
  threads a state that holds the two stores and the trace of every external call
  and sleep, in order. What the outside answers is a parameter (the world): the answer
  to a call may depend on how many events came before it, so a resource may appear or
  vanish between two calls. One invocation is run in isolation; the interleaving of
  several asyncio tasks is not part of the model.
\<close>

subsection \<open>Python string operations used by the server\<close>

text \<open>
  A character is a code point below 256, so the operations below are Python's on such
  text (whitespace includes U+0085 and U+00A0; digits are the ASCII ones):
  \<^verbatim>\<open>str.strip()\<close>, \<^verbatim>\<open>str.lower()\<close>, \<^verbatim>\<open>str.split(sep)\<close>,
  \<^verbatim>\<open>str.replace(old, new)\<close> for a non-empty \<^verbatim>\<open>old\<close>, \<^verbatim>\<open>sub in s\<close>,
  \<^verbatim>\<open>int(s)\<close> and the decimal rendering of an int in an f-string.
\<close>

definition is_space :: "char \<Rightarrow> bool" where
  "is_space c =
     (let n = (of_char c :: nat)
      in (9 \<le> n \<and> n \<le> 13) \<or> (28 \<le> n \<and> n \<le> 32) \<or> n = 133 \<or> n = 160)"

definition strip :: "string \<Rightarrow> string" where
  "strip s = rev (dropWhile is_space (rev (dropWhile is_space s)))"

definition lower_char :: "char \<Rightarrow> char" where
  "lower_char c = (let n = (of_char c :: nat) in if 65 \<le> n \<and> n \<le> 90 then char_of (n + 32) else c)"

definition lower :: "string \<Rightarrow> string" where
  "lower s = map lower_char s"

fun split_on :: "char \<Rightarrow> string \<Rightarrow> string list" where
  "split_on sep [] = [[]]"
| "split_on sep (c # cs) =
     (if c = sep then [] # split_on sep cs
      else (case split_on sep cs of [] \<Rightarrow> [[c]] | x # xs \<Rightarrow> (c # x) # xs))"

text \<open>\<^verbatim>\<open>s.replace(old, new)\<close>; the server only calls it with \<^verbatim>\<open>old = 'service/'\<close>.
  For an empty \<^verbatim>\<open>old\<close> (never passed) the model leaves the string as it is.\<close>

function replace :: "string \<Rightarrow> string \<Rightarrow> string \<Rightarrow> string" where
  "replace old new [] = []"
| "replace old new (c # cs) =
     (if old \<noteq> [] \<and> prefix old (c # cs) then new @ replace old new (drop (length old) (c # cs))
      else c # replace old new cs)"
  by pat_completeness auto
termination
  by (relation "measure (\<lambda>(old, new, s). length s)") (auto simp: Suc_diff_le)

text \<open>\<^verbatim>\<open>sub in s\<close>: the string \<open>sub\<close> occurs in \<open>s\<close> as a contiguous block.\<close>

fun contains :: "string \<Rightarrow> string \<Rightarrow> bool" where
  "contains [] sub = (sub = [])"
| "contains (c # cs) sub = (prefix sub (c # cs) \<or> contains cs sub)"

definition digit_char :: "nat \<Rightarrow> char" where
  "digit_char d =
     (if d = 0 then CHR ''0'' else if d = 1 then CHR ''1'' else if d = 2 then CHR ''2''
      else if d = 3 then CHR ''3'' else if d = 4 then CHR ''4'' else if d = 5 then CHR ''5''
      else if d = 6 then CHR ''6'' else if d = 7 then CHR ''7'' else if d = 8 then CHR ''8''
      else CHR ''9'')"

fun str_nat :: "nat \<Rightarrow> string" where
  "str_nat n = (if n < 10 then [digit_char n] else str_nat (n div 10) @ [digit_char (n mod 10)])"

definition str_int :: "int \<Rightarrow> string" where
  "str_int i = (if i < 0 then CHR ''-'' # str_nat (nat (- i)) else str_nat (nat i))"

definition is_digit :: "char \<Rightarrow> bool" where
  "is_digit c = (let n = (of_char c :: nat) in 48 \<le> n \<and> n \<le> 57)"

text \<open>The digits of an int literal, underscores allowed singly between digits;
  \<open>acc\<close> is the value read so far, \<open>prev\<close> says whether the previous character was a digit.\<close>

fun digits_value :: "nat \<Rightarrow> bool \<Rightarrow> string \<Rightarrow> nat option" where
  "digits_value acc prev [] = (if prev then Some acc else None)"
| "digits_value acc prev (c # cs) =
     (if is_digit c then digits_value (10 * acc + ((of_char c :: nat) - 48)) True cs
      else if c = CHR ''_'' \<and> prev then digits_value acc False cs
      else None)"

text \<open>\<^verbatim>\<open>int(s)\<close> in base 10: \<open>None\<close> is the ValueError, which CPython also raises
  for a literal of more than 4300 digits.\<close>

definition py_int :: "string \<Rightarrow> int option" where
  "py_int s =
     (case strip s of
        [] \<Rightarrow> None
      | c # cs \<Rightarrow>
          if 4300 < length (filter is_digit (c # cs)) then None
          else if c = CHR ''-'' then map_option (\<lambda>n. - int n) (digits_value 0 False cs)
          else if c = CHR ''+'' then map_option int (digits_value 0 False cs)
          else map_option int (digits_value 0 False (c # cs)))"

subsection \<open>The outside world and the state\<close>

datatype event =
    Run "string list" "nat option"   \<comment> \<open>\<^verbatim>\<open>subprocess.run(argv, timeout=t)\<close>\<close>
  | Popen "string list"              \<comment> \<open>\<^verbatim>\<open>subprocess.Popen(argv)\<close>, with the log file opened for it\<close>
  | Sleep nat                        \<comment> \<open>\<^verbatim>\<open>time.sleep(n)\<close> or \<^verbatim>\<open>await asyncio.sleep(n)\<close>\<close>

datatype proc_result =
    Completed int string string      \<comment> \<open>return code, stdout, stderr\<close>
  | RunTimeout                       \<comment> \<open>\<^verbatim>\<open>subprocess.TimeoutExpired\<close>\<close>
  | RunError string                  \<comment> \<open>any other exception, with its \<^verbatim>\<open>str(e)\<close>\<close>

datatype popen_result =
    PopenRaised                      \<comment> \<open>opening the log file or \<^verbatim>\<open>Popen\<close> raised\<close>
  | PopenExited                      \<comment> \<open>\<^verbatim>\<open>process.poll()\<close> is not None after the wait\<close>
  | PopenRunning                     \<comment> \<open>\<^verbatim>\<open>process.poll()\<close> is None after the wait\<close>

datatype exn =
    CalledProcessError "string list" int string   \<comment> \<open>argv, return code, stderr\<close>
  | TimeoutExpired
  | Exception string                              \<comment> \<open>any other exception, with its \<^verbatim>\<open>str(e)\<close>\<close>

text \<open>
  The world: the cluster name read from the environment at import, the answer to the call
  made after \<open>n\<close> earlier events, and Python's rendering \<^verbatim>\<open>str(e)\<close> of a
  \<^verbatim>\<open>CalledProcessError\<close> (library code, taken as a parameter).
\<close>

record world =
  CLUSTER_NAME :: string
  run_result :: "nat \<Rightarrow> string list \<Rightarrow> proc_result"
  popen_result :: "nat \<Rightarrow> string list \<Rightarrow> popen_result"
  cpe_str :: "string list \<Rightarrow> int \<Rightarrow> string"

record health_record =
  healthy :: bool
  details :: string
  consul_host :: string

record outcome =
  o_cluster :: string
  o_service :: string
  o_status :: string
  o_message :: string

text \<open>
  The two module-level objects. A Python name holds a reference, so what
  \<^verbatim>\<open>get_status\<close> puts into its answer is a reference to one of them; both live in the
  state, which is the store the references point into.
\<close>

datatype obj_ref = StatusObj | RemediationLogObj

record state =
  status :: "(string \<times> health_record) list"   \<comment> \<open>the dict, in insertion order\<close>
  remediation_log :: "outcome list"
  trace :: "event list"

definition initial_state :: state where
  "initial_state = \<lparr>status = [], remediation_log = [], trace = []\<rparr>"

definition sleep :: "nat \<Rightarrow> state \<Rightarrow> state" where
  "sleep n s = s\<lparr>trace := trace s @ [Sleep n]\<rparr>"

definition log_append :: "outcome \<Rightarrow> state \<Rightarrow> state" where
  "log_append out s = s\<lparr>remediation_log := remediation_log s @ [out]\<rparr>"

text \<open>
  \<^verbatim>\<open>subprocess.run(argv, capture_output=True, text=True, timeout=t, check=c)\<close>: the call
  is recorded, then it raises or returns the completed process. With \<^verbatim>\<open>check=True\<close> a
  non-zero return code raises \<^verbatim>\<open>CalledProcessError\<close>. The only call without a timeout is
  the \<^verbatim>\<open>pkill\<close>, whose exceptions are all caught at once, so an answer \<open>RunTimeout\<close> to
  it is one more exception there.
\<close>

definition subprocess_run ::
  "world \<Rightarrow> string list \<Rightarrow> nat option \<Rightarrow> bool \<Rightarrow> state \<Rightarrow> (exn + int \<times> string \<times> string) \<times> state" where
  "subprocess_run w argv timeout check s =
     (let s' = s\<lparr>trace := trace s @ [Run argv timeout]\<rparr> in
      case run_result w (length (trace s)) argv of
        RunTimeout \<Rightarrow> (Inl TimeoutExpired, s')
      | RunError msg \<Rightarrow> (Inl (Exception msg), s')
      | Completed rc out err \<Rightarrow>
          if check \<and> rc \<noteq> 0 then (Inl (CalledProcessError argv rc err), s')
          else (Inr (rc, out, err), s'))"

subsection \<open>The status registry: \<^verbatim>\<open>receive_report\<close> and \<^verbatim>\<open>get_status\<close>\<close>

text \<open>
  A report is the JSON object posted by the agent; \<^verbatim>\<open>cluster\<close> and \<^verbatim>\<open>service\<close> are
  read with \<^verbatim>\<open>report[...]\<close>, the other three with \<^verbatim>\<open>report.get(..., default)\<close>, so
  they may be absent.
\<close>

record report =
  r_cluster :: string
  r_service :: string
  r_healthy :: "bool option"
  r_details :: "string option"
  r_consul_host :: "string option"

definition report_key :: "report \<Rightarrow> string" where
  "report_key r = r_cluster r @ ''-'' @ r_service r"

definition report_record :: "report \<Rightarrow> health_record" where
  "report_record r =
     \<lparr>healthy = (case r_healthy r of None \<Rightarrow> False | Some b \<Rightarrow> b),
      details = (case r_details r of None \<Rightarrow> [] | Some d \<Rightarrow> d),
      consul_host = (case r_consul_host r of None \<Rightarrow> ''N/A'' | Some h \<Rightarrow> h)\<rparr>"

text \<open>\<^verbatim>\<open>d[k] = v\<close> through a reference to a dict: the entry is replaced in place or
  added at the end. Only \<open>StatusObj\<close> is a dict.\<close>

definition dict_setitem :: "obj_ref \<Rightarrow> string \<Rightarrow> health_record \<Rightarrow> state \<Rightarrow> state" where
  "dict_setitem r k v s =
     (case r of
        StatusObj \<Rightarrow> s\<lparr>status := AList.update k v (status s)\<rparr>
      | RemediationLogObj \<Rightarrow> s)"

definition receive_report :: "report \<Rightarrow> state \<Rightarrow> state" where
  "receive_report r s = dict_setitem StatusObj (report_key r) (report_record r) s"

record status_response =
  resp_cluster :: string
  resp_status :: obj_ref
  resp_remediation_log :: obj_ref
  total_services :: nat
  healthy_services :: nat

definition get_status :: "world \<Rightarrow> state \<Rightarrow> status_response" where
  "get_status w s =
     \<lparr>resp_cluster = CLUSTER_NAME w,
      resp_status = StatusObj,
      resp_remediation_log = RemediationLogObj,
      total_services = length (status s),
      healthy_services = length (filter (\<lambda>r. healthy r) (map snd (status s)))\<rparr>"

text \<open>What a reference to a dict shows when it is read.\<close>

definition deref_dict :: "obj_ref \<Rightarrow> state \<Rightarrow> (string \<times> health_record) list" where
  "deref_dict r s = (case r of StatusObj \<Rightarrow> status s | RemediationLogObj \<Rightarrow> [])"

subsection \<open>The resource locator: \<^verbatim>\<open>find_elasticsearch_resources\<close>\<close>

definition search_configs :: "(string \<times> string \<times> string) list" where
  "search_configs =
     [(''elasticsearch'', ''elasticsearch-master'', ''elasticsearch-master''),
      (''elasticsearch'', ''elasticsearch'', ''elasticsearch''),
      (''elasticsearch'', ''elasticsearch-master'', ''elasticsearch''),
      (''elasticsearch'', ''elasticsearch-master'', ''elasticsearch-master''),
      (''default'', ''elasticsearch'', ''elasticsearch''),
      (''logging'', ''elasticsearch'', ''elasticsearch'')]"

definition get_namespace_cmd :: "string \<Rightarrow> string list" where
  "get_namespace_cmd namespace = [''kubectl'', ''get'', ''namespace'', namespace]"

definition get_statefulset_cmd :: "string \<Rightarrow> string \<Rightarrow> string list" where
  "get_statefulset_cmd sts_name namespace =
     [''kubectl'', ''get'', ''statefulset'', sts_name, ''-n'', namespace]"

definition get_service_cmd :: "string \<Rightarrow> string \<Rightarrow> string list" where
  "get_service_cmd svc_name namespace =
     [''kubectl'', ''get'', ''service'', svc_name, ''-n'', namespace]"

definition list_services_cmd :: "string \<Rightarrow> string list" where
  "list_services_cmd namespace = [''kubectl'', ''get'', ''svc'', ''-n'', namespace, ''-o'', ''name'']"

text \<open>The loop over the lines of \<^verbatim>\<open>kubectl get svc -o name\<close> (lines 91 to 95): the first
  line whose name, with \<^verbatim>\<open>service/\<close> removed, contains \<^verbatim>\<open>elasticsearch\<close> in lower case.\<close>

definition first_elasticsearch_service :: "string \<Rightarrow> string option" where
  "first_elasticsearch_service out =
     find (\<lambda>service_name. contains (lower service_name) ''elasticsearch'')
       (map (replace ''service/'' []) (split_on CHR 0x0A (strip out)))"

text \<open>
  The body of the \<^verbatim>\<open>try\<close> for one candidate (lines 52 to 99). \<open>Inr (Some loc)\<close> is a
  \<^verbatim>\<open>return\<close>, \<open>Inr None\<close> goes on to the next candidate, \<open>Inl e\<close> is an exception,
  which the \<^verbatim>\<open>except\<close> of the loop catches.
\<close>

definition check_config ::
  "world \<Rightarrow> string \<times> string \<times> string \<Rightarrow> state \<Rightarrow> (exn + (string \<times> string \<times> string) option) \<times> state" where
  "check_config w cfg s =
     (case cfg of (namespace, sts_name, svc_name) \<Rightarrow>
      (case subprocess_run w (get_namespace_cmd namespace) (Some 5) False s of
         (Inl e, s1) \<Rightarrow> (Inl e, s1)
       | (Inr (ns_rc, ns_out, ns_err), s1) \<Rightarrow>
           if ns_rc \<noteq> 0 then (Inr None, s1)
           else
             (case subprocess_run w (get_statefulset_cmd sts_name namespace) (Some 5) False s1 of
                (Inl e, s2) \<Rightarrow> (Inl e, s2)
              | (Inr (sts_rc, sts_out, sts_err), s2) \<Rightarrow>
                  if sts_rc = 0 then
                    (case subprocess_run w (get_service_cmd svc_name namespace) (Some 5) False s2 of
                       (Inl e, s3) \<Rightarrow> (Inl e, s3)
                     | (Inr (svc_rc, svc_out, svc_err), s3) \<Rightarrow>
                         if svc_rc = 0 then (Inr (Some (namespace, sts_name, svc_name)), s3)
                         else
                           (case subprocess_run w (list_services_cmd namespace) (Some 5) False s3 of
                              (Inl e, s4) \<Rightarrow> (Inl e, s4)
                            | (Inr (all_rc, all_out, all_err), s4) \<Rightarrow>
                                (case (if all_rc = 0 then first_elasticsearch_service all_out else None) of
                                   Some service_name \<Rightarrow> (Inr (Some (namespace, sts_name, service_name)), s4)
                                 | None \<Rightarrow> (Inr (Some (namespace, sts_name, sts_name)), s4))))
                  else (Inr None, s2))))"

text \<open>The inner \<^verbatim>\<open>for\<close> over the candidates: an exception or a miss goes on to the next one.\<close>

fun scan_configs ::
  "world \<Rightarrow> (string \<times> string \<times> string) list \<Rightarrow> state \<Rightarrow> (string \<times> string \<times> string) option \<times> state" where
  "scan_configs w [] s = (None, s)"
| "scan_configs w (cfg # cfgs) s =
     (case check_config w cfg s of
        (Inr (Some loc), s') \<Rightarrow> (Some loc, s')
      | (Inr None, s') \<Rightarrow> scan_configs w cfgs s'
      | (Inl e, s') \<Rightarrow> scan_configs w cfgs s')"

text \<open>The outer \<^verbatim>\<open>for attempt in range(3)\<close>, with the pause after the first two rounds.\<close>

fun detection_attempts ::
  "world \<Rightarrow> nat list \<Rightarrow> state \<Rightarrow> (string \<times> string \<times> string) option \<times> state" where
  "detection_attempts w [] s = (None, s)"
| "detection_attempts w (attempt # rest) s =
     (case scan_configs w search_configs s of
        (Some loc, s') \<Rightarrow> (Some loc, s')
      | (None, s') \<Rightarrow> detection_attempts w rest (if attempt < 2 then sleep 5 s' else s'))"

text \<open>The function returns three optional strings: all three set, or \<^verbatim>\<open>(None, None, None)\<close>.\<close>

definition find_elasticsearch_resources ::
  "world \<Rightarrow> state \<Rightarrow> (string option \<times> string option \<times> string option) \<times> state" where
  "find_elasticsearch_resources w s =
     (case detection_attempts w [0, 1, 2] s of
        (Some (namespace, sts_name, svc_name), s') \<Rightarrow> ((Some namespace, Some sts_name, Some svc_name), s')
      | (None, s') \<Rightarrow> ((None, None, None), s'))"

subsection \<open>Replica count, scaling and the port-forward\<close>

definition get_replicas_cmd :: "string \<Rightarrow> string \<Rightarrow> string list" where
  "get_replicas_cmd name namespace =
     [''kubectl'', ''get'', ''statefulset'', name, ''-n'', namespace, ''-o'', ''jsonpath={.spec.replicas}'']"

definition get_statefulset_replicas :: "world \<Rightarrow> string \<Rightarrow> string \<Rightarrow> state \<Rightarrow> int \<times> state" where
  "get_statefulset_replicas w name namespace s =
     (case subprocess_run w (get_replicas_cmd name namespace) (Some 10) False s of
        (Inl e, s') \<Rightarrow> (0, s')
      | (Inr (rc, out, err), s') \<Rightarrow>
          if rc = 0 \<and> strip out \<noteq> [] then
            (case py_int (strip out) of Some n \<Rightarrow> (n, s') | None \<Rightarrow> (0, s'))
          else (0, s'))"

definition scale_cmd :: "string \<Rightarrow> string \<Rightarrow> int \<Rightarrow> string list" where
  "scale_cmd name namespace replicas =
     [''kubectl'', ''scale'', ''statefulset'', name, ''-n'', namespace, ''--replicas='' @ str_int replicas]"

definition scale_statefulset :: "world \<Rightarrow> string \<Rightarrow> string \<Rightarrow> int \<Rightarrow> state \<Rightarrow> bool \<times> state" where
  "scale_statefulset w name namespace replicas s =
     (case subprocess_run w (scale_cmd name namespace replicas) (Some 30) True s of
        (Inl e, s') \<Rightarrow> (False, s')
      | (Inr r, s') \<Rightarrow> (True, s'))"

text \<open>\<^verbatim>\<open>PORT_FORWARDS\<close>: namespace, service and port per service; \<open>None\<close> is the KeyError.\<close>

definition PORT_FORWARDS :: "string \<Rightarrow> (string \<times> string \<times> int) option" where
  "PORT_FORWARDS service =
     (if service = ''vault'' then Some (''vault'', ''vault'', 8200)
      else if service = ''consul'' then Some (''consul'', ''consul-server'', 8500)
      else if service = ''elasticsearch'' then Some (''elasticsearch'', ''elasticsearch-master'', 9200)
      else None)"

definition pkill_cmd :: "int \<Rightarrow> string list" where
  "pkill_cmd port = [''pkill'', ''-f'', ''kubectl port-forward.*'' @ str_int port]"

definition kill_port_forward :: "world \<Rightarrow> string \<Rightarrow> state \<Rightarrow> state" where
  "kill_port_forward w service s =
     (case PORT_FORWARDS service of
        None \<Rightarrow> s
      | Some (cfg_ns, cfg_svc, port) \<Rightarrow>
          (case subprocess_run w (pkill_cmd port) None False s of
             (Inl e, s') \<Rightarrow> s'
           | (Inr r, s') \<Rightarrow> sleep 2 s'))"

definition port_forward_cmd :: "string \<Rightarrow> int \<Rightarrow> string \<Rightarrow> string list" where
  "port_forward_cmd service_name port ns =
     [''kubectl'', ''port-forward'', ''svc/'' @ service_name, str_int port @ '':'' @ str_int port, ''-n'', ns]"

text \<open>Python's truth value of an optional string: \<^verbatim>\<open>None\<close> and \<^verbatim>\<open>''\<close> are false.\<close>

definition truthy :: "string option \<Rightarrow> bool" where
  "truthy v = (case v of None \<Rightarrow> False | Some x \<Rightarrow> x \<noteq> [])"

definition start_port_forward ::
  "world \<Rightarrow> string \<Rightarrow> string option \<Rightarrow> string option \<Rightarrow> state \<Rightarrow> bool \<times> state" where
  "start_port_forward w service namespace svc_name s =
     (case PORT_FORWARDS service of
        None \<Rightarrow> (False, s)
      | Some (cfg_ns, cfg_svc, port) \<Rightarrow>
          (case (case (namespace, svc_name) of
                   (Some n, Some v) \<Rightarrow> if n \<noteq> [] \<and> v \<noteq> [] then (n, v) else (cfg_ns, cfg_svc)
                 | _ \<Rightarrow> (cfg_ns, cfg_svc)) of
             (ns, service_name) \<Rightarrow>
               (let s1 = kill_port_forward w service s;
                    cmd = port_forward_cmd service_name port ns;
                    s2 = s1\<lparr>trace := trace s1 @ [Popen cmd]\<rparr>
                in case popen_result w (length (trace s1)) cmd of
                     PopenRaised \<Rightarrow> (False, s2)
                   | PopenExited \<Rightarrow> (False, sleep 3 s2)
                   | PopenRunning \<Rightarrow> (True, sleep 3 s2))))"

subsection \<open>The orchestrator: \<^verbatim>\<open>remediate\<close>\<close>

definition common_patterns :: "(string \<times> string) list" where
  "common_patterns =
     [(''elasticsearch'', ''elasticsearch-master''),
      (''elasticsearch'', ''elasticsearch''),
      (''elasticsearch'', ''elasticsearch-master'')]"

text \<open>The last-resort loop (lines 292 to 305): the first pattern whose StatefulSet exists sets
  the three names and breaks; the bare \<^verbatim>\<open>except\<close> goes on to the next pattern.\<close>

fun try_common_patterns ::
  "world \<Rightarrow> (string \<times> string) list \<Rightarrow> state \<Rightarrow> (string \<times> string \<times> string) option \<times> state" where
  "try_common_patterns w [] s = (None, s)"
| "try_common_patterns w ((ns, sts) # rest) s =
     (case subprocess_run w (get_statefulset_cmd sts ns) (Some 5) False s of
        (Inl e, s') \<Rightarrow> try_common_patterns w rest s'
      | (Inr (rc, out, err), s') \<Rightarrow>
          if rc = 0 then (Some (ns, sts, sts), s') else try_common_patterns w rest s')"

text \<open>The text built by lines 309 to 312.\<close>

definition error_details :: string where
  "error_details =
     foldl (\<lambda>acc (ns, sts). acc @ ''  - '' @ ns @ ''/'' @ sts @ [CHR 0x0A])
       (''Tried these combinations:'' @ [CHR 0x0A]) common_patterns"

definition not_found_message :: string where
  "not_found_message =
     ''Elasticsearch not found. '' @ error_details @
     ''Run 'kubectl get statefulset -A | grep -i elastic' to find it manually.''"

text \<open>Passing \<^verbatim>\<open>None\<close> where \<^verbatim>\<open>subprocess.run\<close> wants a string raises a TypeError
  before anything is run; its text is Python's.\<close>

definition none_in_argv_message :: string where
  "none_in_argv_message = ''expected str, bytes or os.PathLike object, not NoneType''"

definition list_all_cmd :: "string list" where
  "list_all_cmd = [''kubectl'', ''get'', ''all'', ''-n'', ''elasticsearch'']"

text \<open>
  The \<^verbatim>\<open>elasticsearch\<close> branch (lines 261 to 312): the listing of the namespace, whose
  result is only logged, the dynamic detection, and the last resort. It yields the three
  names as the variables hold them, or the exception of line 312.
\<close>

definition resolve_elasticsearch ::
  "world \<Rightarrow> state \<Rightarrow> (exn + string option \<times> string option \<times> string option) \<times> state" where
  "resolve_elasticsearch w s =
     (case subprocess_run w list_all_cmd (Some 10) False s of (listing, s0) \<Rightarrow>
      (case find_elasticsearch_resources w s0 of ((namespace, statefulset_name, service_name), s1) \<Rightarrow>
         if \<not> truthy namespace \<or> \<not> truthy statefulset_name then
           (case try_common_patterns w common_patterns s1 of
              (Some (ns, sts, svc), s2) \<Rightarrow> (Inr (Some ns, Some sts, Some svc), s2)
            | (None, s2) \<Rightarrow>
                if \<not> truthy namespace then (Inl (Exception not_found_message), s2)
                else (Inr (namespace, statefulset_name, service_name), s2))
         else (Inr (namespace, statefulset_name, service_name), s1)))"

definition rollout_restart_cmd :: "string \<Rightarrow> string \<Rightarrow> string list" where
  "rollout_restart_cmd statefulset_name namespace =
     [''kubectl'', ''rollout'', ''restart'', ''statefulset/'' @ statefulset_name, ''-n'', namespace]"

definition get_svc_cmd :: "string \<Rightarrow> string \<Rightarrow> string list" where
  "get_svc_cmd service_name namespace = [''kubectl'', ''get'', ''svc'', service_name, ''-n'', namespace]"

text \<open>Lines 326 to 333: the StatefulSet must exist.\<close>

definition check_statefulset :: "world \<Rightarrow> string \<Rightarrow> string \<Rightarrow> state \<Rightarrow> (exn + unit) \<times> state" where
  "check_statefulset w statefulset_name namespace s =
     (case subprocess_run w (get_statefulset_cmd statefulset_name namespace) (Some 10) False s of
        (Inl e, s1) \<Rightarrow> (Inl e, s1)
      | (Inr (rc, out, err), s1) \<Rightarrow>
          if rc \<noteq> 0 then
            (Inl (Exception (''StatefulSet '' @ statefulset_name @ '' not found in namespace '' @
                             namespace @ ''. Error: '' @ strip err)), s1)
          else (Inr (), s1))"

text \<open>Lines 335 to 348: read the replica count; at zero, scale up and wait. The count read
  is returned, since the message of line 388 uses it.\<close>

definition rescale_if_zero ::
  "world \<Rightarrow> string \<Rightarrow> string \<Rightarrow> string \<Rightarrow> int \<Rightarrow> state \<Rightarrow> (exn + int) \<times> state" where
  "rescale_if_zero w service statefulset_name namespace default_replicas s =
     (case get_statefulset_replicas w statefulset_name namespace s of (current_replicas, s1) \<Rightarrow>
        if current_replicas = 0 then
          (case scale_statefulset w statefulset_name namespace default_replicas s1 of
             (False, s2) \<Rightarrow> (Inl (Exception (''Failed to scale '' @ service @ '' back up'')), s2)
           | (True, s2) \<Rightarrow>
               (Inr current_replicas, sleep (if service = ''elasticsearch'' then 60 else 30) s2))
        else (Inr current_replicas, s1))"

text \<open>Lines 350 to 360: the rollout restart, with \<^verbatim>\<open>check=True\<close>, and the wait after it.\<close>

definition rollout_restart :: "world \<Rightarrow> string \<Rightarrow> string \<Rightarrow> string \<Rightarrow> state \<Rightarrow> (exn + unit) \<times> state" where
  "rollout_restart w service statefulset_name namespace s =
     (case subprocess_run w (rollout_restart_cmd statefulset_name namespace) (Some 60) True s of
        (Inl e, s1) \<Rightarrow> (Inl e, s1)
      | (Inr r, s1) \<Rightarrow> (Inr (), sleep (if service = ''elasticsearch'' then 90 else 30) s1))"

text \<open>Lines 364 to 377: \<^verbatim>\<open>for i in range(6)\<close>; a found service breaks, anything else
  (a non-zero return code or an exception) sleeps ten seconds and goes on.\<close>

fun wait_service_ready :: "world \<Rightarrow> string \<Rightarrow> string \<Rightarrow> nat list \<Rightarrow> state \<Rightarrow> state" where
  "wait_service_ready w service_name namespace [] s = s"
| "wait_service_ready w service_name namespace (i # rest) s =
     (case subprocess_run w (get_svc_cmd service_name namespace) (Some 5) False s of
        (Inl e, s1) \<Rightarrow> wait_service_ready w service_name namespace rest (sleep 10 s1)
      | (Inr (rc, out, err), s1) \<Rightarrow>
          if rc = 0 then s1 else wait_service_ready w service_name namespace rest (sleep 10 s1))"

text \<open>Lines 386 to 393: the message of a success.\<close>

definition success_message :: "string \<Rightarrow> int \<Rightarrow> int \<Rightarrow> string \<Rightarrow> string \<Rightarrow> string \<Rightarrow> string" where
  "success_message service current_replicas default_replicas port_msg namespace statefulset_name =
     ''Remediation completed for '' @ service @ ''.'' @
     (if current_replicas = 0 then '' Scaled from 0 to '' @ str_int default_replicas @ '' replicas and restarted.''
      else '' Performed rolling restart.'') @
     port_msg @
     '' Found in namespace: '' @ namespace @ '' as StatefulSet: '' @ statefulset_name @ ''.''"

definition port_forward_warning :: string where
  "port_forward_warning = '' Warning: Failed to restart port-forward - you may need to restart manually.''"

text \<open>Lines 379 to 401: the port-forward, the message and the entry in the log. The port
  of line 382 is read only after \<^verbatim>\<open>start_port_forward\<close> returned True; a KeyError there
  would be an exception of the body.\<close>

definition restore_and_log ::
  "world \<Rightarrow> string \<Rightarrow> string \<Rightarrow> string \<Rightarrow> string \<Rightarrow> int \<Rightarrow> int \<Rightarrow> state \<Rightarrow> (exn + unit) \<times> state" where
  "restore_and_log w service namespace statefulset_name service_name default_replicas current_replicas s =
     (case start_port_forward w service (Some namespace) (Some service_name) s of
        (True, s1) \<Rightarrow>
          (case PORT_FORWARDS service of
             None \<Rightarrow> (Inl (Exception ([CHR 0x27] @ service @ [CHR 0x27])), s1)
           | Some (cfg_ns, cfg_svc, port) \<Rightarrow>
               (Inr (), log_append
                  \<lparr>o_cluster = CLUSTER_NAME w, o_service = service, o_status = ''success'',
                   o_message = success_message service current_replicas default_replicas
                     ('' Port-forward restarted on port '' @ str_int port @ ''.'') namespace statefulset_name\<rparr> s1))
      | (False, s1) \<Rightarrow>
          (Inr (), log_append
             \<lparr>o_cluster = CLUSTER_NAME w, o_service = service, o_status = ''success'',
              o_message = success_message service current_replicas default_replicas
                port_forward_warning namespace statefulset_name\<rparr> s1))"

text \<open>Lines 324 to 401, once the three names and the default replica count are known.\<close>

definition remediate_resolved ::
  "world \<Rightarrow> string \<Rightarrow> string \<Rightarrow> string \<Rightarrow> string \<Rightarrow> int \<Rightarrow> state \<Rightarrow> (exn + unit) \<times> state" where
  "remediate_resolved w service namespace statefulset_name service_name default_replicas s =
     (case check_statefulset w statefulset_name namespace s of
        (Inl e, s1) \<Rightarrow> (Inl e, s1)
      | (Inr u, s1) \<Rightarrow>
          (case rescale_if_zero w service statefulset_name namespace default_replicas s1 of
             (Inl e, s2) \<Rightarrow> (Inl e, s2)
           | (Inr current_replicas, s2) \<Rightarrow>
               (case rollout_restart w service statefulset_name namespace s2 of
                  (Inl e, s3) \<Rightarrow> (Inl e, s3)
                | (Inr u', s3) \<Rightarrow>
                    restore_and_log w service namespace statefulset_name service_name
                      default_replicas current_replicas
                      (wait_service_ready w service_name namespace [0, 1, 2, 3, 4, 5] s3))))"

text \<open>
  Lines 249 to 322, the \<^verbatim>\<open>if\<close>/\<^verbatim>\<open>elif\<close> chain on the service name: what the
  variables \<^verbatim>\<open>namespace\<close>, \<^verbatim>\<open>statefulset_name\<close>, \<^verbatim>\<open>service_name\<close> and
  \<^verbatim>\<open>default_replicas\<close> hold when line 324 is reached, or that the \<^verbatim>\<open>else\<close> branch
  was taken.
\<close>

datatype resolution =
    Names "string option" "string option" "string option" int
  | NoRemediation

definition resolve :: "world \<Rightarrow> string \<Rightarrow> state \<Rightarrow> (exn + resolution) \<times> state" where
  "resolve w service s =
     (if service = ''vault'' then
        (Inr (Names (Some ''vault'') (Some ''vault'') (Some ''vault'') 1), s)
      else if service = ''consul'' then
        (Inr (Names (Some ''consul'') (Some ''consul-server'') (Some ''consul-server'') 3), s)
      else if service = ''elasticsearch'' then
        (case resolve_elasticsearch w s of
           (Inl e, s1) \<Rightarrow> (Inl e, s1)
         | (Inr (namespace, statefulset_name, service_name), s1) \<Rightarrow>
             (Inr (Names namespace statefulset_name service_name 3), s1))
      else (Inr NoRemediation, s))"

text \<open>The body of the \<^verbatim>\<open>try\<close> (lines 247 to 401).\<close>

definition remediate_body :: "world \<Rightarrow> string \<Rightarrow> state \<Rightarrow> (exn + unit) \<times> state" where
  "remediate_body w service s =
     (case resolve w service s of
        (Inl e, s1) \<Rightarrow> (Inl e, s1)
      | (Inr NoRemediation, s1) \<Rightarrow>
          (Inr (), log_append
             \<lparr>o_cluster = CLUSTER_NAME w, o_service = service, o_status = ''failed'',
              o_message = ''No remediation implemented for service ''
                          @ [CHR 0x27] @ service @ [CHR 0x27]\<rparr> s1)
      | (Inr (Names (Some namespace) (Some statefulset_name) (Some service_name) default_replicas), s1) \<Rightarrow>
          remediate_resolved w service namespace statefulset_name service_name default_replicas s1
      | (Inr (Names namespace statefulset_name service_name default_replicas), s1) \<Rightarrow>
          (Inl (Exception none_in_argv_message), s1))"

text \<open>The message of each \<^verbatim>\<open>except\<close> clause (lines 403 to 429).\<close>

definition error_msg :: "world \<Rightarrow> exn \<Rightarrow> string" where
  "error_msg w e =
     (case e of
        CalledProcessError argv rc err \<Rightarrow>
          ''Kubectl command failed: '' @ (if err \<noteq> [] then strip err else cpe_str w argv rc)
      | TimeoutExpired \<Rightarrow> ''Remediation command timed out''
      | Exception msg \<Rightarrow> ''Unexpected error during remediation: '' @ msg)"

definition remediate :: "world \<Rightarrow> string \<Rightarrow> state \<Rightarrow> state" where
  "remediate w service s =
     (case remediate_body w service s of
        (Inr u, s') \<Rightarrow> s'
      | (Inl e, s') \<Rightarrow>
          log_append
            \<lparr>o_cluster = CLUSTER_NAME w, o_service = service, o_status = ''failed'',
             o_message = error_msg w e\<rparr> s')"

text \<open>A sequence of calls of \<^verbatim>\<open>receive_report\<close>, in the order of the list.\<close>

definition receive_reports :: "report list \<Rightarrow> state \<Rightarrow> state" where
  "receive_reports rs s = foldl (\<lambda>s' r. receive_report r s') s rs"

subsection \<open>Examples: a world, three reports and a registry\<close>

definition demo_world :: world where
  "demo_world = \<lparr>CLUSTER_NAME = ''c1'', run_result = (\<lambda>n argv. Completed 0 ''1'' []),
     popen_result = (\<lambda>n argv. PopenRunning), cpe_str = (\<lambda>argv rc. ''exit'')\<rparr>"

definition vault_was_healthy :: report where
  "vault_was_healthy =
     \<lparr>r_cluster = ''c1'', r_service = ''vault'', r_healthy = Some True,
      r_details = Some ''Vault is responding normally'', r_consul_host = Some ''N/A''\<rparr>"

definition vault_status_500 :: report where
  "vault_status_500 =
     \<lparr>r_cluster = ''c1'', r_service = ''vault'', r_healthy = Some False,
      r_details = Some ''status 500'', r_consul_host = None\<rparr>"

definition consul_healthy :: report where
  "consul_healthy =
     \<lparr>r_cluster = ''c1'', r_service = ''consul'', r_healthy = Some True,
      r_details = Some ''Consul leader: 10.0.0.1:8300'', r_consul_host = Some ''localhost''\<rparr>"

definition demo_registry :: state where
  "demo_registry =
     \<lparr>status = [(''c1-vault'', \<lparr>healthy = False, details = ''status 500'', consul_host = ''N/A''\<rparr>),
                (''c1-consul'', \<lparr>healthy = True, details = ''leader'', consul_host = ''h''\<rparr>)],
      remediation_log = [], trace = []\<rparr>"


subsection \<open>Vocabulary of the proofs\<close>

text \<open>A scale command, recognised by its first three words.\<close>

definition is_scale_argv :: "string list \<Rightarrow> bool" where
  "is_scale_argv argv = (take 3 argv = [''kubectl'', ''scale'', ''statefulset''])"


text \<open>\<open>extends P s s'\<close>: the two stores are the same in \<open>s'\<close> as in \<open>s\<close>, and the
  trace of \<open>s'\<close> is that of \<open>s\<close> followed by events that all satisfy \<open>P\<close>.\<close>

definition extends :: "(event \<Rightarrow> bool) \<Rightarrow> state \<Rightarrow> state \<Rightarrow> bool" where
  "extends P s s' =
     (status s' = status s \<and> remediation_log s' = remediation_log s \<and>
      (\<exists>t. trace s' = trace s @ t \<and> list_all P t))"

text \<open>A property of events that holds of every sleep, every \<^verbatim>\<open>Popen\<close> and every
  command other than a scale command.\<close>

definition harmless :: "(event \<Rightarrow> bool) \<Rightarrow> bool" where
  "harmless P = ((\<forall>argv t. \<not> is_scale_argv argv \<longrightarrow> P (Run argv t)) \<and> (\<forall>n. P (Sleep n)) \<and> (\<forall>argv. P (Popen argv)))"

text \<open>The three services \<^verbatim>\<open>remediate\<close> has a branch for.\<close>

definition supported :: "string \<Rightarrow> bool" where
  "supported service = (service = ''vault'' \<or> service = ''consul'' \<or> service = ''elasticsearch'')"

text \<open>\<open>grows P s s'\<close>: the trace of \<open>s'\<close> is that of \<open>s\<close> followed by events that all
  satisfy \<open>P\<close>; the stores may differ.\<close>

definition grows :: "(event \<Rightarrow> bool) \<Rightarrow> state \<Rightarrow> state \<Rightarrow> bool" where
  "grows P s s' = (\<exists>t. trace s' = trace s @ t \<and> list_all P t)"


definition tunnel_down_world :: world where
  "tunnel_down_world = \<lparr>CLUSTER_NAME = ''c1'', run_result = (\<lambda>n argv. Completed 0 ''1'' []),
     popen_result = (\<lambda>n argv. PopenExited), cpe_str = (\<lambda>argv rc. ''exit'')\<rparr>"



text \<open>The readiness poll made after \<open>n\<close> earlier events does not find the service.\<close>

definition poll_fails :: "world \<Rightarrow> string \<Rightarrow> string \<Rightarrow> nat \<Rightarrow> bool" where
  "poll_fails w service_name namespace n =
     (case run_result w n (get_svc_cmd service_name namespace) of
        Completed rc out err \<Rightarrow> rc \<noteq> 0
      | RunTimeout \<Rightarrow> True
      | RunError msg \<Rightarrow> True)"

definition polls_fail_world :: world where
  "polls_fail_world = \<lparr>CLUSTER_NAME = ''c1'',
     run_result = (\<lambda>n argv. if argv = get_svc_cmd ''vault'' ''vault'' then Completed 1 [] ''not found''
                             else Completed 0 ''1'' []),
     popen_result = (\<lambda>n argv. PopenRunning), cpe_str = (\<lambda>argv rc. ''exit'')\<rparr>"

definition none_world :: world where
  "none_world = \<lparr>CLUSTER_NAME = ''c1'', run_result = (\<lambda>n argv. Completed 1 [] ''not found''),
     popen_result = (\<lambda>n argv. PopenRunning), cpe_str = (\<lambda>argv rc. ''exit'')\<rparr>"




text \<open>\<open>emits s s' t\<close>: the trace of \<open>s'\<close> is that of \<open>s\<close> followed by \<open>t\<close>.\<close>

definition emits :: "state \<Rightarrow> state \<Rightarrow> event list \<Rightarrow> bool" where
  "emits s s' t = (trace s' = trace s @ t)"

















section \<open>Properties of the status registry\<close>

lemma status_receive_report:
  "status (receive_report r s) = AList.update (report_key r) (report_record r) (status s)"
  by (simp add: receive_report_def dict_setitem_def)

lemma lookup_receive_report:
  "map_of (status (receive_report r s)) k =
     (if report_key r = k then Some (report_record r) else map_of (status s) k)"
  by (simp add: status_receive_report update_conv')

lemma distinct_receive_report:
  "distinct (map fst (status s)) \<Longrightarrow> distinct (map fst (status (receive_report r s)))"
  by (simp add: status_receive_report distinct_update)

lemma receive_reports_snoc:
  "receive_reports (rs @ [r]) s = receive_report r (receive_reports rs s)"
  by (simp add: receive_reports_def)

lemma distinct_receive_reports:
  "distinct (map fst (status s)) \<Longrightarrow> distinct (map fst (status (receive_reports rs s)))"
  by (induction rs rule: rev_induct)
     (simp_all add: receive_reports_snoc distinct_receive_report, simp add: receive_reports_def)

text \<open>
  C7. After any sequence of reports, looking a key up in the registry gives the record of
  the latest report whose key \<^verbatim>\<open>cluster-service\<close> is that key, whole and unmerged; a key
  no report of the sequence had keeps what it held before.
\<close>

theorem last_write_wins:
  "map_of (status (receive_reports rs s)) k =
     (case find (\<lambda>r. report_key r = k) (rev rs) of
        Some r \<Rightarrow> Some (report_record r)
      | None \<Rightarrow> map_of (status s) k)"
proof (induction rs arbitrary: s rule: rev_induct)
  case Nil
  show ?case by (simp add: receive_reports_def)
next
  case (snoc r rs)
  show ?case
    using snoc.IH [of s] by (simp add: receive_reports_snoc lookup_receive_report)
qed

lemma healthy_keys_eq:
  "distinct (map fst xs) \<Longrightarrow>
     {k. \<exists>r. map_of xs k = Some r \<and> P r} = fst ` set (filter (\<lambda>p. P (snd p)) xs)"
  by (force simp: image_iff)

lemma card_filter_keys:
  assumes "distinct (map fst xs)"
  shows "card (fst ` set (filter (\<lambda>p. P (snd p)) xs)) = length (filter P (map snd xs))"
proof -
  have d: "distinct (map fst (filter (\<lambda>p. P (snd p)) xs))"
    using assms by (simp add: distinct_map_filter)
  have "card (fst ` set (filter (\<lambda>p. P (snd p)) xs)) = length (filter (\<lambda>p. P (snd p)) xs)"
    using distinct_card [OF d] by simp
  also have "\<dots> = length (filter P (map snd xs))"
    by (simp add: filter_map comp_def)
  finally show ?thesis .
qed

theorem last_write_wins_witness:
  "map_of (status (receive_reports [vault_was_healthy, vault_status_500, consul_healthy] initial_state))
     ''c1-vault'' = Some \<lparr>healthy = False, details = ''status 500'', consul_host = ''N/A''\<rparr>"
  using last_write_wins [of "[vault_was_healthy, vault_status_500, consul_healthy]" initial_state "''c1-vault''"]
  by (simp add: vault_was_healthy_def vault_status_500_def consul_healthy_def report_key_def
      report_record_def)

text \<open>
  C9, as amended. The two counts of \<^verbatim>\<open>get_status\<close> are the number of keys of the
  registry and the number of keys whose record has \<^verbatim>\<open>healthy\<close> true; the mapping in
  the answer is a reference to the registry's own dict, so reading it shows the registry.
\<close>

theorem get_status_counts:
  assumes "distinct (map fst (status s))"
  shows "total_services (get_status w s) = card (dom (map_of (status s)))
       \<and> healthy_services (get_status w s) = card {k. \<exists>r. map_of (status s) k = Some r \<and> healthy r}
       \<and> deref_dict (resp_status (get_status w s)) s = status s"
proof -
  have "card (dom (map_of (status s))) = length (status s)"
    using assms distinct_card [of "map fst (status s)"] by (simp add: dom_map_of_conv_image_fst)
  moreover have "card {k. \<exists>r. map_of (status s) k = Some r \<and> healthy r}
      = length (filter healthy (map snd (status s)))"
    by (simp only: healthy_keys_eq [OF assms] card_filter_keys [OF assms])
  ultimately show ?thesis
    by (simp add: get_status_def deref_dict_def)
qed

theorem get_status_counts_witness:
  "distinct (map fst (status demo_registry))
   \<and> total_services (get_status demo_world demo_registry) = card (dom (map_of (status demo_registry)))
   \<and> total_services (get_status demo_world demo_registry) = 2
   \<and> healthy_services (get_status demo_world demo_registry) = 1"
proof -
  have d: "distinct (map fst (status demo_registry))"
    by (simp add: demo_registry_def)
  show ?thesis
    using d get_status_counts [OF d, of demo_world]
    by (simp add: get_status_def demo_registry_def)
qed

text \<open>
  C9 as stated fails: the answer holds no copy. A write through the reference that
  \<^verbatim>\<open>get_status\<close> returned changes the record the registry holds for the key.
\<close>

theorem get_status_exposes_registry_counterexample:
  "map_of (status (dict_setitem (resp_status (get_status demo_world demo_registry))
        ''c1-vault'' \<lparr>healthy = True, details = ''forged'', consul_host = ''x''\<rparr> demo_registry)) ''c1-vault''
   \<noteq> map_of (status demo_registry) ''c1-vault''"
  by (simp add: get_status_def dict_setitem_def demo_registry_def)

section \<open>Properties of the orchestrator\<close>

subsection \<open>Every stage only extends the trace\<close>

lemma harmless_True: "harmless (\<lambda>ev. True)"
  by (simp add: harmless_def)


lemma extends_refl: "extends P s s"
  by (simp add: extends_def)

lemma extends_trans: "extends P s s1 \<Longrightarrow> extends P s1 s2 \<Longrightarrow> extends P s s2"
  by (auto simp: extends_def)

lemma extends_mono: "extends P s s' \<Longrightarrow> (\<And>ev. P ev \<Longrightarrow> Q ev) \<Longrightarrow> extends Q s s'"
  by (auto simp: extends_def list_all_iff)

lemma subprocess_run_state:
  "subprocess_run w argv t c s = (r, s') \<Longrightarrow> s' = s\<lparr>trace := trace s @ [Run argv t]\<rparr>"
  by (auto simp: subprocess_run_def Let_def split: proc_result.splits if_splits)

lemma extends_run:
  "P (Run argv t) \<Longrightarrow> subprocess_run w argv t c s = (r, s') \<Longrightarrow> extends P s s'"
  by (drule subprocess_run_state) (simp add: extends_def)

lemma extends_sleep: "P (Sleep n) \<Longrightarrow> extends P s (sleep n s)"
  by (simp add: extends_def sleep_def)

lemma harmless_run: "harmless P \<Longrightarrow> \<not> is_scale_argv argv \<Longrightarrow> P (Run argv t)"
  by (simp add: harmless_def)

lemma harmless_sleep: "harmless P \<Longrightarrow> P (Sleep n)"
  by (simp add: harmless_def)


lemma not_scale_cmds [simp]:
  "\<not> is_scale_argv (get_namespace_cmd ns)"
  "\<not> is_scale_argv (get_statefulset_cmd sts ns)"
  "\<not> is_scale_argv (get_service_cmd svc ns)"
  "\<not> is_scale_argv (list_services_cmd ns)"
  "\<not> is_scale_argv (get_replicas_cmd sts ns)"
  "\<not> is_scale_argv (pkill_cmd port)"
  "\<not> is_scale_argv list_all_cmd"
  "\<not> is_scale_argv (rollout_restart_cmd sts ns)"
  "\<not> is_scale_argv (get_svc_cmd svc ns)"
  by (simp_all add: is_scale_argv_def get_namespace_cmd_def get_statefulset_cmd_def
      get_service_cmd_def list_services_cmd_def get_replicas_cmd_def pkill_cmd_def list_all_cmd_def
      rollout_restart_cmd_def get_svc_cmd_def)

lemma check_config_extends:
  assumes "harmless P" and "check_config w cfg s = (r, s')"
  shows "extends P s s'"
proof -
  obtain namespace sts_name svc_name where cfg: "cfg = (namespace, sts_name, svc_name)"
    by (cases cfg) auto
  show ?thesis
    using assms(2) unfolding cfg check_config_def
    by (auto split: prod.splits sum.splits if_splits option.splits
        dest!: subprocess_run_state simp: extends_def harmless_run [OF assms(1)])
qed

lemma scan_configs_extends:
  "harmless P \<Longrightarrow> scan_configs w cfgs s = (r, s') \<Longrightarrow> extends P s s'"
proof (induction cfgs arbitrary: s)
  case Nil
  then show ?case by (simp add: extends_refl)
next
  case (Cons cfg cfgs)
  obtain r1 s1 where c: "check_config w cfg s = (r1, s1)" by (cases "check_config w cfg s")
  have e1: "extends P s s1" using check_config_extends [OF Cons.prems(1) c] .
  show ?case
    using Cons.prems(2) c e1 Cons.IH [OF Cons.prems(1), of s1]
    by (auto split: sum.splits option.splits intro: extends_trans)
qed

lemma detection_attempts_extends:
  "harmless P \<Longrightarrow> detection_attempts w as s = (r, s') \<Longrightarrow> extends P s s'"
proof (induction as arbitrary: s)
  case Nil
  then show ?case by (simp add: extends_refl)
next
  case (Cons a as)
  obtain r1 s1 where c: "scan_configs w search_configs s = (r1, s1)"
    by (cases "scan_configs w search_configs s")
  have e1: "extends P s s1" using scan_configs_extends [OF Cons.prems(1) c] .
  have e2: "extends P s1 (sleep 5 s1)"
    using extends_sleep [of P 5 s1] harmless_sleep [OF Cons.prems(1)] by simp
  show ?case
    using Cons.prems(2) c e1 e2 Cons.IH [OF Cons.prems(1), of "sleep 5 s1"] Cons.IH [OF Cons.prems(1), of s1]
    by (auto split: option.splits if_splits intro: extends_trans)
qed

lemma find_elasticsearch_resources_extends:
  "harmless P \<Longrightarrow> find_elasticsearch_resources w s = (r, s') \<Longrightarrow> extends P s s'"
  by (auto simp: find_elasticsearch_resources_def simp del: detection_attempts.simps
      split: prod.splits option.splits dest: detection_attempts_extends)

lemma try_common_patterns_extends:
  "harmless P \<Longrightarrow> try_common_patterns w ps s = (r, s') \<Longrightarrow> extends P s s'"
proof (induction ps arbitrary: s)
  case Nil
  then show ?case by (simp add: extends_refl)
next
  case (Cons p ps)
  obtain ns sts where p: "p = (ns, sts)" by (cases p)
  obtain r1 s1 where c: "subprocess_run w (get_statefulset_cmd sts ns) (Some 5) False s = (r1, s1)"
    by (cases "subprocess_run w (get_statefulset_cmd sts ns) (Some 5) False s")
  have e1: "extends P s s1"
    using extends_run [OF _ c, of P] harmless_run [OF Cons.prems(1)] by simp
  show ?case
    using Cons.prems(2) c e1 Cons.IH [OF Cons.prems(1), of s1] unfolding p
    by (auto split: sum.splits if_splits intro: extends_trans)
qed



text \<open>
  C3. A service name other than \<^verbatim>\<open>vault\<close>, \<^verbatim>\<open>consul\<close> and \<^verbatim>\<open>elasticsearch\<close>
  adds one failed outcome with the fixed message, which names the service, and leaves the
  trace as it was: no command is run, no tunnel started, nothing slept.
\<close>

theorem remediate_unsupported:
  assumes "service \<noteq> ''vault''" and "service \<noteq> ''consul''" and "service \<noteq> ''elasticsearch''"
  shows "remediate w service s =
           s\<lparr>remediation_log := remediation_log s @
              [\<lparr>o_cluster = CLUSTER_NAME w, o_service = service, o_status = ''failed'',
                o_message = ''No remediation implemented for service '' @ [CHR 0x27] @ service @ [CHR 0x27]\<rparr>]\<rparr>
         \<and> trace (remediate w service s) = trace s"
  using assms by (simp add: remediate_def remediate_body_def resolve_def log_append_def)

theorem remediate_unsupported_witness:
  "remediation_log (remediate demo_world ''redis'' initial_state) =
     [\<lparr>o_cluster = ''c1'', o_service = ''redis'', o_status = ''failed'',
       o_message = ''No remediation implemented for service '' @ [CHR 0x27] @ ''redis'' @ [CHR 0x27]\<rparr>]
   \<and> trace (remediate demo_world ''redis'' initial_state) = []"
  using remediate_unsupported [of "''redis''" demo_world initial_state]
  by (simp add: initial_state_def demo_world_def)











subsection \<open>What one run adds to the log\<close>








subsection \<open>Substrings and the stages after resolution\<close>


lemma grows_refl: "grows P s s"
  by (simp add: grows_def)



lemma grows_prefix: "grows P s s' \<Longrightarrow> prefix (trace s) (trace s')"
  by (auto simp: grows_def)



lemma contains_prefix: "prefix sub s \<Longrightarrow> contains s sub"
  by (cases s) auto

lemma contains_append_left: "contains s sub \<Longrightarrow> contains (p @ s) sub"
  by (induction p) auto

lemma contains_middle: "contains (p @ sub @ q) sub"
  by (rule contains_append_left) (simp add: contains_prefix)

lemma contains_imp_split: "contains s sub \<Longrightarrow> \<exists>p q. s = p @ sub @ q"
proof (induction s)
  case Nil
  then show ?case by simp
next
  case (Cons c cs)
  show ?case
  proof (cases "prefix sub (c # cs)")
    case True
    then obtain q where "c # cs = sub @ q" by (auto simp: prefix_def)
    then have "c # cs = [] @ sub @ q" by simp
    then show ?thesis by blast
  next
    case False
    with Cons.prems have "contains cs sub" by simp
    from Cons.IH [OF this] obtain p q where "cs = p @ sub @ q" by blast
    then have "c # cs = (c # p) @ sub @ q" by simp
    then show ?thesis by blast
  qed
qed

lemma remediate_body_resolved:
  "resolve w service s = (Inr (Names (Some ns) (Some sts) (Some svc) dflt), s0) \<Longrightarrow>
     remediate_body w service s = remediate_resolved w service ns sts svc dflt s0"
  by (simp add: remediate_body_def)

lemma resolve_default:
  "resolve w service s = (Inr (Names a b c dflt), s0) \<Longrightarrow>
     supported service \<and> dflt = (if service = ''vault'' then 1 else 3)"
  by (auto simp: resolve_def supported_def split: if_splits prod.splits sum.splits)

lemma remediate_resolved_after_restart:
  assumes "check_statefulset w sts ns s0 = (Inr (), s1)"
    and "rescale_if_zero w service sts ns dflt s1 = (Inr cur, s2)"
    and "rollout_restart w service sts ns s2 = (Inr (), s3)"
  shows "remediate_resolved w service ns sts svc dflt s0 =
           restore_and_log w service ns sts svc dflt cur
             (wait_service_ready w svc ns [0, 1, 2, 3, 4, 5] s3)"
  using assms by (simp add: remediate_resolved_def del: wait_service_ready.simps)

lemma restore_and_log_False:
  "start_port_forward w service (Some ns) (Some svc) s = (False, s1) \<Longrightarrow>
     restore_and_log w service ns sts svc dflt cur s =
       (Inr (), log_append \<lparr>o_cluster = CLUSTER_NAME w, o_service = service, o_status = ''success'',
          o_message = success_message service cur dflt port_forward_warning ns sts\<rparr> s1)"
  by (simp add: restore_and_log_def)

lemma restore_and_log_True:
  "start_port_forward w service (Some ns) (Some svc) s = (True, s1) \<Longrightarrow>
   PORT_FORWARDS service = Some (cfg_ns, cfg_svc, port) \<Longrightarrow>
     restore_and_log w service ns sts svc dflt cur s =
       (Inr (), log_append \<lparr>o_cluster = CLUSTER_NAME w, o_service = service, o_status = ''success'',
          o_message = success_message service cur dflt
            ('' Port-forward restarted on port '' @ str_int port @ ''.'') ns sts\<rparr> s1)"
  by (simp add: restore_and_log_def)

lemma success_message_contains_port_msg:
  "contains (success_message service cur dflt port_msg ns sts) port_msg"
proof -
  have "\<exists>p q. success_message service cur dflt port_msg ns sts = p @ port_msg @ q"
    unfolding success_message_def
    by (metis append.assoc)
  then show ?thesis using contains_middle by metis
qed

text \<open>
  C5. When the names are resolved, the StatefulSet exists, the rescale stage and the
  rollout restart raise nothing, and \<^verbatim>\<open>start_port_forward\<close> then returns False, the run
  ends with a success outcome whose message carries the warning about the port-forward.
\<close>

theorem tunnel_failure_still_success:
  assumes "resolve w service s = (Inr (Names (Some ns) (Some sts) (Some svc) dflt), s0)"
    and "check_statefulset w sts ns s0 = (Inr (), s1)"
    and "rescale_if_zero w service sts ns dflt s1 = (Inr cur, s2)"
    and "rollout_restart w service sts ns s2 = (Inr (), s3)"
    and "start_port_forward w service (Some ns) (Some svc)
           (wait_service_ready w svc ns [0, 1, 2, 3, 4, 5] s3) = (False, s4)"
  shows "remediate w service s =
           log_append \<lparr>o_cluster = CLUSTER_NAME w, o_service = service, o_status = ''success'',
             o_message = success_message service cur dflt port_forward_warning ns sts\<rparr> s4
         \<and> contains (success_message service cur dflt port_forward_warning ns sts)
             '' Warning: Failed to restart port-forward''"
proof -
  have "remediate_body w service s =
          (Inr (), log_append \<lparr>o_cluster = CLUSTER_NAME w, o_service = service, o_status = ''success'',
             o_message = success_message service cur dflt port_forward_warning ns sts\<rparr> s4)"
    using remediate_body_resolved [OF assms(1)]
      remediate_resolved_after_restart [OF assms(2,3,4), of svc]
      restore_and_log_False [OF assms(5)] by simp
  then have a: "remediate w service s =
           log_append \<lparr>o_cluster = CLUSTER_NAME w, o_service = service, o_status = ''success'',
             o_message = success_message service cur dflt port_forward_warning ns sts\<rparr> s4"
    by (simp add: remediate_def)
  have "\<exists>q. port_forward_warning = '' Warning: Failed to restart port-forward'' @ q"
    by (simp add: port_forward_warning_def)
  then obtain q where q: "port_forward_warning = '' Warning: Failed to restart port-forward'' @ q" ..
  obtain p r where "success_message service cur dflt port_forward_warning ns sts = p @ port_forward_warning @ r"
    using contains_imp_split [OF success_message_contains_port_msg] by blast
  then have "success_message service cur dflt port_forward_warning ns sts
      = p @ '' Warning: Failed to restart port-forward'' @ (q @ r)"
    using q by simp
  then have "contains (success_message service cur dflt port_forward_warning ns sts)
      '' Warning: Failed to restart port-forward''"
    using contains_middle by metis
  with a show ?thesis by simp
qed










subsection \<open>The theorems at concrete worlds\<close>

text \<open>The definitions that running \<^verbatim>\<open>remediate\<close> on a concrete world unfolds.\<close>

lemmas eval_defs = remediate_def remediate_body_def resolve_def remediate_resolved_def check_statefulset_def
      rescale_if_zero_def get_statefulset_replicas_def scale_statefulset_def rollout_restart_def
      restore_and_log_def start_port_forward_def kill_port_forward_def PORT_FORWARDS_def
      subprocess_run_def initial_state_def sleep_def log_append_def
      strip_def is_space_def py_int_def is_digit_def Let_def

lemma str_int_values:
  "str_int 1 = ''1''" "str_int 3 = ''3''"
  "str_int 8200 = ''8200''" "str_int 8500 = ''8500''" "str_int 9200 = ''9200''"
  by (simp_all add: str_int_def digit_char_def)


theorem tunnel_failure_still_success_witness:
  "o_status (last (remediation_log (remediate tunnel_down_world ''vault'' initial_state))) = ''success''
   \<and> o_message (last (remediation_log (remediate tunnel_down_world ''vault'' initial_state))) =
       success_message ''vault'' 1 1 port_forward_warning ''vault'' ''vault''"
proof -
  let ?w = tunnel_down_world
  have r: "resolve ?w ''vault'' initial_state =
             (Inr (Names (Some ''vault'') (Some ''vault'') (Some ''vault'') 1), initial_state)"
    by (simp add: resolve_def)
  define s1 where "s1 = snd (check_statefulset ?w ''vault'' ''vault'' initial_state)"
  have c: "check_statefulset ?w ''vault'' ''vault'' initial_state = (Inr (), s1)"
    by (simp add: s1_def check_statefulset_def subprocess_run_def tunnel_down_world_def)
  define s2 where "s2 = snd (rescale_if_zero ?w ''vault'' ''vault'' ''vault'' 1 s1)"
  have z: "rescale_if_zero ?w ''vault'' ''vault'' ''vault'' 1 s1 = (Inr 1, s2)"
    by (simp add: s2_def rescale_if_zero_def get_statefulset_replicas_def subprocess_run_def
        tunnel_down_world_def strip_def is_space_def py_int_def is_digit_def)
  define s3 where "s3 = snd (rollout_restart ?w ''vault'' ''vault'' ''vault'' s2)"
  have t: "rollout_restart ?w ''vault'' ''vault'' ''vault'' s2 = (Inr (), s3)"
    by (simp add: s3_def rollout_restart_def subprocess_run_def tunnel_down_world_def)
  define s4 where "s4 = snd (start_port_forward ?w ''vault'' (Some ''vault'') (Some ''vault'')
           (wait_service_ready ?w ''vault'' ''vault'' [0, 1, 2, 3, 4, 5] s3))"
  have p: "start_port_forward ?w ''vault'' (Some ''vault'') (Some ''vault'')
           (wait_service_ready ?w ''vault'' ''vault'' [0, 1, 2, 3, 4, 5] s3) = (False, s4)"
    by (simp add: s4_def start_port_forward_def PORT_FORWARDS_def Let_def tunnel_down_world_def)
  from tunnel_failure_still_success [OF r c z t p] show ?thesis
    by (simp add: log_append_def)
qed


subsection \<open>A failed read of the replica count\<close>





subsection \<open>The readiness polls\<close>

lemma wait_step_fail:
  "poll_fails w svc ns (length (trace s)) \<Longrightarrow>
     wait_service_ready w svc ns (i # rest) s =
       wait_service_ready w svc ns rest
         (s\<lparr>trace := trace s @ [Run (get_svc_cmd svc ns) (Some 5), Sleep 10]\<rparr>)"
  by (auto simp: poll_fails_def subprocess_run_def sleep_def Let_def split: proc_result.splits)

lemma wait_step_ok:
  "\<not> poll_fails w svc ns (length (trace s)) \<Longrightarrow>
     wait_service_ready w svc ns (i # rest) s =
       s\<lparr>trace := trace s @ [Run (get_svc_cmd svc ns) (Some 5)]\<rparr>"
  by (auto simp: poll_fails_def subprocess_run_def sleep_def Let_def split: proc_result.splits)

lemma wait_service_ready_shape:
  "\<exists>k\<le>length is. trace (wait_service_ready w svc ns is s) =
      trace s @ concat (replicate k [Run (get_svc_cmd svc ns) (Some 5), Sleep 10]) @
      (if k < length is then [Run (get_svc_cmd svc ns) (Some 5)] else [])"
proof (induction "is" arbitrary: s)
  case Nil
  then show ?case by simp
next
  case (Cons i "is")
  let ?p = "Run (get_svc_cmd svc ns) (Some 5)"
  show ?case
  proof (cases "poll_fails w svc ns (length (trace s))")
    case True
    let ?s' = "s\<lparr>trace := trace s @ [?p, Sleep 10]\<rparr>"
    from Cons.IH [of ?s'] obtain k where k: "k \<le> length is"
      "trace (wait_service_ready w svc ns is ?s') =
         trace ?s' @ concat (replicate k [?p, Sleep 10]) @ (if k < length is then [?p] else [])"
      by blast
    have "trace (wait_service_ready w svc ns (i # is) s) =
        trace s @ concat (replicate (Suc k) [?p, Sleep 10]) @
        (if Suc k < length (i # is) then [?p] else [])"
      using k(2) wait_step_fail [OF True, of i "is"] by simp
    moreover have "Suc k \<le> length (i # is)" using k(1) by simp
    ultimately show ?thesis by blast
  next
    case False
    have "trace (wait_service_ready w svc ns (i # is) s) =
        trace s @ concat (replicate 0 [?p, Sleep 10]) @ (if 0 < length (i # is) then [?p] else [])"
      using wait_step_ok [OF False, of i "is"] by simp
    then show ?thesis by blast
  qed
qed

lemma wait_service_ready_all_fail:
  "(\<And>j. j < length is \<Longrightarrow> poll_fails w svc ns (length (trace s) + 2 * j)) \<Longrightarrow>
     trace (wait_service_ready w svc ns is s) =
       trace s @ concat (replicate (length is) [Run (get_svc_cmd svc ns) (Some 5), Sleep 10])"
proof (induction "is" arbitrary: s)
  case Nil
  then show ?case by simp
next
  case (Cons i "is")
  let ?p = "Run (get_svc_cmd svc ns) (Some 5)"
  let ?s' = "s\<lparr>trace := trace s @ [?p, Sleep 10]\<rparr>"
  have f0: "poll_fails w svc ns (length (trace s))" using Cons.prems [of 0] by simp
  have "\<And>j. j < length is \<Longrightarrow> poll_fails w svc ns (length (trace ?s') + 2 * j)"
    using Cons.prems [of "Suc _"] by simp
  from Cons.IH [OF this] show ?case
    using wait_step_fail [OF f0, of i "is"] by simp
qed

lemma start_port_forward_first:
  assumes "PORT_FORWARDS service = Some (a, b, port)"
    and "start_port_forward w service x y s = (ok, s')"
  shows "prefix (trace s @ [Run (pkill_cmd port) None]) (trace s')"
proof -
  have k: "prefix (trace s @ [Run (pkill_cmd port) None]) (trace (kill_port_forward w service s))"
    using assms(1)
    by (auto simp: kill_port_forward_def sleep_def split: prod.splits sum.splits
        dest!: subprocess_run_state)
  have "prefix (trace (kill_port_forward w service s)) (trace s')"
    using assms by (auto simp: start_port_forward_def Let_def sleep_def
        split: popen_result.splits option.splits prod.splits if_splits)
  with k show ?thesis by (rule prefix_order.trans)
qed

lemma supported_port_forward:
  "supported service \<Longrightarrow> \<exists>a b port. PORT_FORWARDS service = Some (a, b, port)"
  by (auto simp: supported_def PORT_FORWARDS_def)

text \<open>
  C6, as amended. After a successful rollout restart the service is polled at most 6 times,
  each poll with a 5-second timeout and each failed poll followed by a 10-second sleep; when
  all 6 polls fail the trace holds exactly 6 polls and 6 sleeps. Whatever the polls
  answer, the run goes on to the port-forward (its first command is the \<^verbatim>\<open>pkill\<close>) and
  ends with a success outcome, whose message is built from the service, the replica counts,
  the port-forward result, the namespace and the StatefulSet only: it says nothing about
  readiness.
\<close>

theorem readiness_polling_is_best_effort:
  assumes res: "resolve w service s = (Inr (Names (Some ns) (Some sts) (Some svc) dflt), s0)"
    and chk: "check_statefulset w sts ns s0 = (Inr (), s1)"
    and rz: "rescale_if_zero w service sts ns dflt s1 = (Inr cur, s2)"
    and rr: "rollout_restart w service sts ns s2 = (Inr (), s3)"
  shows "(\<exists>k\<le>6. trace (wait_service_ready w svc ns [0, 1, 2, 3, 4, 5] s3) =
            trace s3 @ concat (replicate k [Run (get_svc_cmd svc ns) (Some 5), Sleep 10]) @
            (if k < 6 then [Run (get_svc_cmd svc ns) (Some 5)] else []))
    \<and> ((\<forall>j<6. poll_fails w svc ns (length (trace s3) + 2 * j)) \<longrightarrow>
         trace (wait_service_ready w svc ns [0, 1, 2, 3, 4, 5] s3) =
           trace s3 @ concat (replicate 6 [Run (get_svc_cmd svc ns) (Some 5), Sleep 10]))
    \<and> (\<exists>a b port. PORT_FORWARDS service = Some (a, b, port)
         \<and> prefix (trace (wait_service_ready w svc ns [0, 1, 2, 3, 4, 5] s3) @ [Run (pkill_cmd port) None])
             (trace (remediate w service s))
         \<and> (\<exists>port_msg. (port_msg = port_forward_warning
                          \<or> port_msg = '' Port-forward restarted on port '' @ str_int port @ ''.'')
              \<and> last (remediation_log (remediate w service s)) =
                  \<lparr>o_cluster = CLUSTER_NAME w, o_service = service, o_status = ''success'',
                   o_message = success_message service cur dflt port_msg ns sts\<rparr>))"
proof (intro conjI)
  let ?ws = "wait_service_ready w svc ns [0, 1, 2, 3, 4, 5] s3"
  have six: "length [0, 1, 2, 3, 4, 5::nat] = 6" by simp
  show "\<exists>k\<le>6. trace ?ws =
            trace s3 @ concat (replicate k [Run (get_svc_cmd svc ns) (Some 5), Sleep 10]) @
            (if k < 6 then [Run (get_svc_cmd svc ns) (Some 5)] else [])"
    using wait_service_ready_shape [of "[0, 1, 2, 3, 4, 5]" w svc ns s3] by (simp only: six)
  show "(\<forall>j<6. poll_fails w svc ns (length (trace s3) + 2 * j)) \<longrightarrow>
         trace ?ws = trace s3 @ concat (replicate 6 [Run (get_svc_cmd svc ns) (Some 5), Sleep 10])"
  proof
    assume a: "\<forall>j<6. poll_fails w svc ns (length (trace s3) + 2 * j)"
    have "trace ?ws = trace s3 @
        concat (replicate (length [0, 1, 2, 3, 4, 5::nat]) [Run (get_svc_cmd svc ns) (Some 5), Sleep 10])"
      by (rule wait_service_ready_all_fail) (use a in simp)
    then show "trace ?ws = trace s3 @ concat (replicate 6 [Run (get_svc_cmd svc ns) (Some 5), Sleep 10])"
      by (simp only: six)
  qed
  obtain a b port where pf: "PORT_FORWARDS service = Some (a, b, port)"
    using supported_port_forward resolve_default [OF res] by blast
  obtain ok s4 where sp: "start_port_forward w service (Some ns) (Some svc) ?ws = (ok, s4)"
    by (cases "start_port_forward w service (Some ns) (Some svc) ?ws")
  let ?msg = "if ok then '' Port-forward restarted on port '' @ str_int port @ ''.''
              else port_forward_warning"
  let ?out = "\<lparr>o_cluster = CLUSTER_NAME w, o_service = service, o_status = ''success'',
               o_message = success_message service cur dflt ?msg ns sts\<rparr>"
  have ral: "restore_and_log w service ns sts svc dflt cur ?ws = (Inr (), log_append ?out s4)"
  proof (cases ok)
    case True
    with sp have "start_port_forward w service (Some ns) (Some svc) ?ws = (True, s4)" by simp
    from restore_and_log_True [OF this pf] True show ?thesis by simp
  next
    case False
    with sp have "start_port_forward w service (Some ns) (Some svc) ?ws = (False, s4)" by simp
    from restore_and_log_False [OF this] False show ?thesis by simp
  qed
  have "remediate_body w service s = (Inr (), log_append ?out s4)"
    using remediate_body_resolved [OF res] remediate_resolved_after_restart [OF chk rz rr, of svc] ral
    by simp
  then have rem: "remediate w service s = log_append ?out s4"
    by (simp add: remediate_def)
  have p: "prefix (trace ?ws @ [Run (pkill_cmd port) None]) (trace (remediate w service s))"
    using start_port_forward_first [OF pf sp] rem by (simp add: log_append_def)
  have l: "last (remediation_log (remediate w service s)) = ?out"
    using rem by (simp add: log_append_def)
  have m: "?msg = port_forward_warning \<or> ?msg = '' Port-forward restarted on port '' @ str_int port @ ''.''"
    by simp
  show "\<exists>a b port. PORT_FORWARDS service = Some (a, b, port)
         \<and> prefix (trace ?ws @ [Run (pkill_cmd port) None]) (trace (remediate w service s))
         \<and> (\<exists>port_msg. (port_msg = port_forward_warning
                          \<or> port_msg = '' Port-forward restarted on port '' @ str_int port @ ''.'')
              \<and> last (remediation_log (remediate w service s)) =
                  \<lparr>o_cluster = CLUSTER_NAME w, o_service = service, o_status = ''success'',
                   o_message = success_message service cur dflt port_msg ns sts\<rparr>)"
    using pf p l m by blast
qed

text \<open>The whole run on a world where the service is never found by the polls.\<close>

lemma polls_fail_run:
  "remediate polls_fail_world ''vault'' initial_state =
     \<lparr>status = [],
      remediation_log = [\<lparr>o_cluster = ''c1'', o_service = ''vault'', o_status = ''success'',
         o_message = success_message ''vault'' 1 1 '' Port-forward restarted on port 8200.'' ''vault'' ''vault''\<rparr>],
      trace = [Run (get_statefulset_cmd ''vault'' ''vault'') (Some 10),
               Run (get_replicas_cmd ''vault'' ''vault'') (Some 10),
               Run (rollout_restart_cmd ''vault'' ''vault'') (Some 60), Sleep 30,
               Run (get_svc_cmd ''vault'' ''vault'') (Some 5), Sleep 10,
               Run (get_svc_cmd ''vault'' ''vault'') (Some 5), Sleep 10,
               Run (get_svc_cmd ''vault'' ''vault'') (Some 5), Sleep 10,
               Run (get_svc_cmd ''vault'' ''vault'') (Some 5), Sleep 10,
               Run (get_svc_cmd ''vault'' ''vault'') (Some 5), Sleep 10,
               Run (get_svc_cmd ''vault'' ''vault'') (Some 5), Sleep 10,
               Run (pkill_cmd 8200) None, Sleep 2,
               Popen (port_forward_cmd ''vault'' 8200 ''vault''), Sleep 3]\<rparr>"
  by (simp add: eval_defs polls_fail_world_def str_int_values
      get_statefulset_cmd_def get_replicas_cmd_def rollout_restart_cmd_def get_svc_cmd_def pkill_cmd_def
      port_forward_cmd_def)

lemma demo_world_run:
  "remediation_log (remediate demo_world ''vault'' initial_state) =
     [\<lparr>o_cluster = ''c1'', o_service = ''vault'', o_status = ''success'',
       o_message = success_message ''vault'' 1 1 '' Port-forward restarted on port 8200.'' ''vault'' ''vault''\<rparr>]"
  by (simp add: eval_defs demo_world_def str_int_values)

text \<open>
  C6 as stated fails: when all 6 polls fail the message is the very message of a run whose
  first poll finds the service, so it notes no caveat about readiness.
\<close>

theorem readiness_caveat_counterexample:
  "o_message (last (remediation_log (remediate polls_fail_world ''vault'' initial_state))) =
   o_message (last (remediation_log (remediate demo_world ''vault'' initial_state)))
   \<and> length (filter (\<lambda>ev. ev = Run (get_svc_cmd ''vault'' ''vault'') (Some 5))
        (trace (remediate polls_fail_world ''vault'' initial_state))) = 6
   \<and> list_all (\<lambda>i. poll_fails polls_fail_world ''vault'' ''vault'' i) [4, 6, 8, 10, 12, 14]
   \<and> o_status (last (remediation_log (remediate polls_fail_world ''vault'' initial_state))) = ''success''"
proof -
  have "list_all (\<lambda>i. poll_fails polls_fail_world ''vault'' ''vault'' i) [4, 6, 8, 10, 12, 14]"
    by (simp add: poll_fails_def polls_fail_world_def)
  moreover have "length (filter (\<lambda>ev. ev = Run (get_svc_cmd ''vault'' ''vault'') (Some 5))
        (trace (remediate polls_fail_world ''vault'' initial_state))) = 6"
    by (simp add: polls_fail_run get_svc_cmd_def
        get_statefulset_cmd_def get_replicas_cmd_def rollout_restart_cmd_def pkill_cmd_def)
  ultimately show ?thesis
    by (simp add: polls_fail_run demo_world_run)
qed

theorem readiness_polling_is_best_effort_witness:
  "\<exists>port_msg. last (remediation_log (remediate polls_fail_world ''vault'' initial_state)) =
      \<lparr>o_cluster = ''c1'', o_service = ''vault'', o_status = ''success'',
       o_message = success_message ''vault'' 1 1 port_msg ''vault'' ''vault''\<rparr>"
proof -
  let ?w = polls_fail_world
  have r: "resolve ?w ''vault'' initial_state =
             (Inr (Names (Some ''vault'') (Some ''vault'') (Some ''vault'') 1), initial_state)"
    by (simp add: resolve_def)
  define s1 where "s1 = snd (check_statefulset ?w ''vault'' ''vault'' initial_state)"
  have c: "check_statefulset ?w ''vault'' ''vault'' initial_state = (Inr (), s1)"
    by (simp add: s1_def check_statefulset_def subprocess_run_def polls_fail_world_def
        get_statefulset_cmd_def get_svc_cmd_def)
  define s2 where "s2 = snd (rescale_if_zero ?w ''vault'' ''vault'' ''vault'' 1 s1)"
  have z: "rescale_if_zero ?w ''vault'' ''vault'' ''vault'' 1 s1 = (Inr 1, s2)"
    by (simp add: s2_def rescale_if_zero_def get_statefulset_replicas_def subprocess_run_def
        polls_fail_world_def strip_def is_space_def py_int_def is_digit_def
        get_replicas_cmd_def get_svc_cmd_def)
  define s3 where "s3 = snd (rollout_restart ?w ''vault'' ''vault'' ''vault'' s2)"
  have t: "rollout_restart ?w ''vault'' ''vault'' ''vault'' s2 = (Inr (), s3)"
    by (simp add: s3_def rollout_restart_def subprocess_run_def polls_fail_world_def
        rollout_restart_cmd_def get_svc_cmd_def)
  from readiness_polling_is_best_effort [OF r c z t] show ?thesis
    by (auto simp: polls_fail_world_def)
qed

subsection \<open>Elasticsearch not found\<close>

lemma not_found_message_text:
  "not_found_message =
     ''Elasticsearch not found. Tried these combinations:'' @ [CHR 0x0A] @
     ''  - elasticsearch/elasticsearch-master'' @ [CHR 0x0A] @
     ''  - elasticsearch/elasticsearch'' @ [CHR 0x0A] @
     ''  - elasticsearch/elasticsearch-master'' @ [CHR 0x0A] @
     ''Run '' @ [CHR 0x27] @ ''kubectl get statefulset -A | grep -i elastic'' @ [CHR 0x27] @
     '' to find it manually.''"
  by (simp add: not_found_message_def error_details_def common_patterns_def)

lemma not_found_lists_patterns:
  "list_all (\<lambda>(ns, sts). contains not_found_message (''  - '' @ ns @ ''/'' @ sts)) common_patterns"
  by (simp add: not_found_message_text common_patterns_def)

lemma elasticsearch_not_found:
  assumes "subprocess_run w list_all_cmd (Some 10) False s = (listing, s0)"
    and "find_elasticsearch_resources w s0 = ((None, None, None), s1)"
    and "try_common_patterns w common_patterns s1 = (None, s2)"
  shows "remediate w ''elasticsearch'' s =
           log_append \<lparr>o_cluster = CLUSTER_NAME w, o_service = ''elasticsearch'', o_status = ''failed'',
             o_message = ''Unexpected error during remediation: '' @ not_found_message\<rparr> s2"
proof -
  have "resolve_elasticsearch w s = (Inl (Exception not_found_message), s2)"
    using assms by (simp add: resolve_elasticsearch_def truthy_def)
  then have "remediate_body w ''elasticsearch'' s = (Inl (Exception not_found_message), s2)"
    by (simp add: remediate_body_def resolve_def)
  then show ?thesis
    by (simp add: remediate_def error_msg_def)
qed

lemma none_world_find:
  "fst (find_elasticsearch_resources none_world s) = (None, None, None)"
  by (simp add: find_elasticsearch_resources_def search_configs_def check_config_def
      subprocess_run_def none_world_def sleep_def Let_def)

lemma none_world_patterns:
  "fst (try_common_patterns none_world common_patterns s) = None"
  by (simp add: common_patterns_def subprocess_run_def none_world_def Let_def)

lemma none_world_run:
  "remediation_log (remediate none_world ''elasticsearch'' initial_state) =
     [\<lparr>o_cluster = ''c1'', o_service = ''elasticsearch'', o_status = ''failed'',
       o_message = ''Unexpected error during remediation: '' @ not_found_message\<rparr>]"
proof -
  let ?w = none_world
  obtain listing s0 where a: "subprocess_run ?w list_all_cmd (Some 10) False initial_state = (listing, s0)"
    by (cases "subprocess_run ?w list_all_cmd (Some 10) False initial_state")
  have r0: "remediation_log s0 = []"
    using subprocess_run_state [OF a] by (simp add: initial_state_def)
  define s1 where "s1 = snd (find_elasticsearch_resources ?w s0)"
  have b: "find_elasticsearch_resources ?w s0 = ((None, None, None), s1)"
    using none_world_find [of s0] by (simp add: s1_def prod_eq_iff)
  define s2 where "s2 = snd (try_common_patterns ?w common_patterns s1)"
  have c: "try_common_patterns ?w common_patterns s1 = (None, s2)"
    using none_world_patterns [of s1] by (simp add: s2_def prod_eq_iff)
  have e1: "extends (\<lambda>ev. True) s0 s1"
    by (rule find_elasticsearch_resources_extends [OF harmless_True b])
  have e2: "extends (\<lambda>ev. True) s1 s2"
    by (rule try_common_patterns_extends [OF harmless_True c])
  have "remediation_log s2 = []"
    using r0 e1 e2 by (simp add: extends_def)
  then show ?thesis
    using elasticsearch_not_found [OF a b c] by (simp add: log_append_def none_world_def)
qed

text \<open>
  C4, as amended. When the locator returns \<^verbatim>\<open>(None, None, None)\<close> and none of the three
  last-resort patterns finds a StatefulSet, the run ends with a failed outcome whose message
  lists the last-resort patterns \<^verbatim>\<open>common_patterns\<close>, each as
  \<^verbatim>\<open>namespace/statefulset\<close> on a line of its own.
\<close>

theorem not_found_lists_fallback_patterns:
  assumes "subprocess_run w list_all_cmd (Some 10) False s = (listing, s0)"
    and "find_elasticsearch_resources w s0 = ((None, None, None), s1)"
    and "try_common_patterns w common_patterns s1 = (None, s2)"
  shows "remediate w ''elasticsearch'' s =
           log_append \<lparr>o_cluster = CLUSTER_NAME w, o_service = ''elasticsearch'', o_status = ''failed'',
             o_message = ''Unexpected error during remediation: '' @ not_found_message\<rparr> s2
       \<and> list_all (\<lambda>(ns, sts). contains not_found_message (''  - '' @ ns @ ''/'' @ sts)) common_patterns"
  using elasticsearch_not_found [OF assms] not_found_lists_patterns by simp

theorem not_found_lists_fallback_patterns_witness:
  "o_status (last (remediation_log (remediate none_world ''elasticsearch'' initial_state))) = ''failed''
   \<and> o_message (last (remediation_log (remediate none_world ''elasticsearch'' initial_state))) =
        ''Unexpected error during remediation: '' @ not_found_message"
proof -
  let ?w = none_world
  obtain listing s0 where a: "subprocess_run ?w list_all_cmd (Some 10) False initial_state = (listing, s0)"
    by (cases "subprocess_run ?w list_all_cmd (Some 10) False initial_state")
  define s1 where "s1 = snd (find_elasticsearch_resources ?w s0)"
  have b: "find_elasticsearch_resources ?w s0 = ((None, None, None), s1)"
    using none_world_find [of s0] by (simp add: s1_def prod_eq_iff)
  define s2 where "s2 = snd (try_common_patterns ?w common_patterns s1)"
  have c: "try_common_patterns ?w common_patterns s1 = (None, s2)"
    using none_world_patterns [of s1] by (simp add: s2_def prod_eq_iff)
  from not_found_lists_fallback_patterns [OF a b c] show ?thesis
    by (simp add: log_append_def)
qed

text \<open>
  C4 as stated fails: on a world where no namespace exists the locator is exhausted and the
  outcome is failed, but the message names neither the \<^verbatim>\<open>default\<close> nor the
  \<^verbatim>\<open>logging\<close> namespace, which two of the six candidates of the locator are in.
\<close>

theorem not_found_message_omits_candidates_counterexample:
  "fst (find_elasticsearch_resources none_world
          (snd (subprocess_run none_world list_all_cmd (Some 10) False initial_state))) = (None, None, None)
   \<and> o_status (last (remediation_log (remediate none_world ''elasticsearch'' initial_state))) = ''failed''
   \<and> (''default'', ''elasticsearch'', ''elasticsearch'') \<in> set search_configs
   \<and> (''logging'', ''elasticsearch'', ''elasticsearch'') \<in> set search_configs
   \<and> \<not> contains (o_message (last (remediation_log (remediate none_world ''elasticsearch'' initial_state))))
         ''default''
   \<and> \<not> contains (o_message (last (remediation_log (remediate none_world ''elasticsearch'' initial_state))))
         ''logging''"
proof -
  have "\<not> contains (''Unexpected error during remediation: '' @ not_found_message) ''default''"
    by (simp add: not_found_message_text)
  moreover have "\<not> contains (''Unexpected error during remediation: '' @ not_found_message) ''logging''"
    by (simp add: not_found_message_text)
  ultimately show ?thesis
    by (simp add: none_world_run none_world_find search_configs_def)
qed

subsection \<open>The resource locator\<close>

lemma emits_drop: "emits s s' t \<Longrightarrow> t = drop (length (trace s)) (trace s')"
  by (simp add: emits_def)



















end
